theory Spec2Isabelle
  imports Main "HOL-Library.Word"
begin

section \<open>The verification ledger: supabase/contracts/DonorVerification.sol\<close>

text \<open>
  Solidity value types: an \<open>address\<close> is 160 bits, \<open>bytes32\<close> and \<open>uint256\<close> are 256 bits.
  A revert is the value \<open>Inl reason\<close>; a function that completes returns \<open>Inr\<close> of the
  contract state it leaves behind.
\<close>

type_synonym address = "160 word"
type_synonym bytes32 = "256 word"
type_synonym uint256 = "256 word"

text \<open>\<^verbatim>\<open>struct Record { address donor; bytes32 certHash; bool eligible; uint256 timestamp; bool exists; }\<close>\<close>

record Record =
  donor :: address
  certHash :: bytes32
  eligible :: bool
  timestamp :: uint256
  exists :: bool

text \<open>The three events of the contract, with their arguments in declaration order.\<close>

datatype event =
  RecordAdded address bytes32 bool uint256 address
| RecordUpdated address bytes32 bytes32 bool uint256
| AdminChanged address address

text \<open>
  The storage of the contract (\<open>records\<close>, \<open>admin\<close>) together with the log of the events
  emitted so far, oldest first.
\<close>

record contract =
  records :: "address \<Rightarrow> Record"
  admin :: address
  events :: "event list"

text \<open>What a call sees of its transaction: \<open>msg.sender\<close> and \<open>block.timestamp\<close>.\<close>

record msg =
  sender :: address
  block_timestamp :: uint256

text \<open>A storage slot never written reads as zero in every field.\<close>

definition zeroRecord :: Record where
  "zeroRecord = \<lparr>donor = 0, certHash = 0, eligible = False, timestamp = 0, exists = False\<rparr>"

text \<open>\<^verbatim>\<open>constructor() { admin = msg.sender; }\<close>\<close>

definition constructor :: "address \<Rightarrow> contract" where
  "constructor deployer = \<lparr>records = (\<lambda>_. zeroRecord), admin = deployer, events = []\<rparr>"

text \<open>\<^verbatim>\<open>modifier onlyAdmin() { require(msg.sender == admin, "..."); _; }\<close>\<close>

definition onlyAdmin :: "msg \<Rightarrow> contract \<Rightarrow> (string + contract) \<Rightarrow> string + contract" where
  "onlyAdmin m s body =
     (if sender m = admin s then body else Inl ''Only admin can call this function'')"

definition storeVerification ::
  "msg \<Rightarrow> address \<Rightarrow> bytes32 \<Rightarrow> bool \<Rightarrow> contract \<Rightarrow> string + contract" where
  "storeVerification m d h e s =
     onlyAdmin m s
       (if h = 0 then Inl ''Certificate hash cannot be empty''
        else
          let isUpdate = exists (records s d);
              oldHash = certHash (records s d);
              s1 = s\<lparr>records := (records s)
                     (d := \<lparr>donor = d, certHash = h, eligible = e,
                            timestamp = block_timestamp m, exists = True\<rparr>)\<rparr>
          in Inr (if isUpdate
                  then s1\<lparr>events := events s1 @ [RecordUpdated d oldHash h e (block_timestamp m)]\<rparr>
                  else s1\<lparr>events := events s1 @ [RecordAdded d h e (block_timestamp m) (sender m)]\<rparr>))"

definition verify :: "contract \<Rightarrow> address \<Rightarrow> bytes32 \<Rightarrow> bool \<times> uint256 \<times> bool" where
  "verify s d h =
     (let r = records s d
      in if \<not> exists r then (False, 0, False)
         else (eligible r, timestamp r, certHash r = h))"

definition getRecord :: "contract \<Rightarrow> address \<Rightarrow> bytes32 \<times> bool \<times> uint256 \<times> bool" where
  "getRecord s d = (let r = records s d in (certHash r, eligible r, timestamp r, exists r))"

definition changeAdmin :: "msg \<Rightarrow> address \<Rightarrow> contract \<Rightarrow> string + contract" where
  "changeAdmin m newAdmin s =
     onlyAdmin m s
       (if newAdmin = 0 then Inl ''New admin cannot be zero address''
        else
          let oldAdmin = admin s;
              s1 = s\<lparr>admin := newAdmin\<rparr>
          in Inr (s1\<lparr>events := events s1 @ [AdminChanged oldAdmin newAdmin]\<rparr>))"

definition hasRecord :: "contract \<Rightarrow> address \<Rightarrow> bool" where
  "hasRecord s d = exists (records s d)"

text \<open>
  A transaction that reverts leaves storage and log as they were; one that completes
  commits the state its call returned. The pair is the outcome seen by the caller and
  the ledger afterwards.
\<close>

definition execute :: "(contract \<Rightarrow> string + contract) \<Rightarrow> contract \<Rightarrow> (string + unit) \<times> contract" where
  "execute call s = (case call s of Inl reason \<Rightarrow> (Inl reason, s) | Inr s' \<Rightarrow> (Inr (), s'))"

text \<open>The ledger states that can arise: a deployment followed by any transactions.\<close>

inductive reachable :: "contract \<Rightarrow> bool" where
  deployed: "reachable (constructor deployer)"
| stored: "reachable s \<Longrightarrow> reachable (snd (execute (storeVerification m d h e) s))"
| admin_changed: "reachable s \<Longrightarrow> reachable (snd (execute (changeAdmin m a) s))"

text \<open>
  The write events of one address, in log order, and the check that such a history
  starts with a \<open>RecordAdded\<close> and continues with \<open>RecordUpdated\<close> events only, each
  carrying as old hash the hash written just before it. The first argument of
  \<open>history_ok\<close> is the hash written last, \<open>None\<close> before the first write.
\<close>

fun about :: "address \<Rightarrow> event \<Rightarrow> bool" where
  "about a (RecordAdded d _ _ _ _) = (d = a)"
| "about a (RecordUpdated d _ _ _ _) = (d = a)"
| "about a (AdminChanged _ _) = False"

definition writes_of :: "address \<Rightarrow> event list \<Rightarrow> event list" where
  "writes_of a es = filter (about a) es"

fun written :: "bytes32 option \<Rightarrow> event \<Rightarrow> bytes32 option" where
  "written _ (RecordAdded _ h _ _ _) = Some h"
| "written _ (RecordUpdated _ _ h _ _) = Some h"
| "written l (AdminChanged _ _) = l"

fun follows :: "bytes32 option \<Rightarrow> event \<Rightarrow> bool" where
  "follows None (RecordAdded _ _ _ _ _) = True"
| "follows (Some old) (RecordUpdated _ oldHash _ _ _) = (oldHash = old)"
| "follows _ _ = False"

fun history_ok :: "bytes32 option \<Rightarrow> event list \<Rightarrow> bool" where
  "history_ok l [] = True"
| "history_ok l (ev # es) = (follows l ev \<and> history_ok (written l ev) es)"

definition last_written :: "event list \<Rightarrow> bytes32 option" where
  "last_written es = foldl written None es"


text \<open>
  The invariant of one address \<open>a\<close>: its write history is well formed; when a record
  exists it is keyed by its own address and holds the hash written last; when none
  exists the slot is still zero and no write event names the address.
\<close>

definition ledger_inv :: "contract \<Rightarrow> address \<Rightarrow> bool" where
  "ledger_inv s a =
     (history_ok None (writes_of a (events s)) \<and>
      (if exists (records s a)
       then donor (records s a) = a \<and>
            last_written (writes_of a (events s)) = Some (certHash (records s a))
       else records s a = zeroRecord \<and> writes_of a (events s) = []))"

section \<open>The hash engine\<close>

text \<open>
  File contents are byte sequences. The digest itself is the platform's
  \<^verbatim>\<open>crypto.subtle.digest(algorithm, data)\<close>, which both call sites receive from their
  runtime; it is a parameter \<open>digest\<close> here, applied to the algorithm name the source
  passes.
\<close>

type_synonym byte = "8 word"

text \<open>\<^verbatim>\<open>Number.prototype.toString(16)\<close> on a non-negative integer: lowercase, no leading zero.\<close>

definition hexDigit :: "nat \<Rightarrow> char" where
  "hexDigit d = ''0123456789abcdef'' ! d"

function toString16 :: "nat \<Rightarrow> string" where
  "toString16 n = (if n < 16 then [hexDigit n] else toString16 (n div 16) @ [hexDigit (n mod 16)])"
  by pat_completeness auto
termination
  by (relation "measure id") auto

declare toString16.simps [simp del]

text \<open>
  \<^verbatim>\<open>String.prototype.padStart(targetLength, padString)\<close>: the pad string is repeated and cut
  to fill the missing length; a string already long enough is returned as it is.
\<close>

definition padStart :: "nat \<Rightarrow> string \<Rightarrow> string \<Rightarrow> string" where
  "padStart n pad str =
     (if n \<le> length str \<or> pad = [] then str
      else take (n - length str) (concat (replicate (n - length str) pad)) @ str)"

text \<open>
  \<^verbatim>\<open>hashArray.map(b => b.toString(16).padStart(2, '0')).join('')\<close>, shared by both call
  sites.
\<close>

definition hashHex :: "byte list \<Rightarrow> string" where
  "hashHex hashArray = concat (map (\<lambda>b. padStart 2 ''0'' (toString16 (unat b))) hashArray)"

text \<open>Server side: \<open>computeFileHash\<close> of supabase/functions/verify-certificate/index.ts.\<close>

definition computeFileHash :: "(string \<Rightarrow> byte list \<Rightarrow> byte list) \<Rightarrow> byte list \<Rightarrow> string" where
  "computeFileHash digest fileData = ''0x'' @ hashHex (digest ''SHA-256'' fileData)"

text \<open>
  Client side: \<open>computeCertificateHash\<close> of src/utils/certificateHash.js. The argument is
  a \<open>File\<close>, a \<open>Blob\<close> or an \<open>ArrayBuffer\<close>, each holding bytes, or anything else. The
  browser's \<^verbatim>\<open>window.crypto.subtle\<close> is \<open>None\<close> when the browser does not provide it.
  A thrown \<open>Error\<close> is \<open>Inl\<close> of its message.
\<close>

datatype fileInput = File "byte list" | Blob "byte list" | ArrayBuffer "byte list" | OtherInput

fun arrayBuffer :: "fileInput \<Rightarrow> string + byte list" where
  "arrayBuffer (File bs) = Inr bs"
| "arrayBuffer (Blob bs) = Inr bs"
| "arrayBuffer (ArrayBuffer bs) = Inr bs"
| "arrayBuffer OtherInput = Inl ''Invalid input type. Expected File, Blob, or ArrayBuffer''"

definition computeCertificateHash ::
  "(string \<Rightarrow> byte list \<Rightarrow> byte list) option \<Rightarrow> fileInput \<Rightarrow> string + string" where
  "computeCertificateHash subtle fileInput =
     (let attempt =
            (case arrayBuffer fileInput of
               Inl msg \<Rightarrow> Inl msg
             | Inr buf \<Rightarrow>
                 (case subtle of
                    None \<Rightarrow> Inl ''Web Crypto API not available. Please use HTTPS or a modern browser.''
                  | Some digest \<Rightarrow> Inr (''0x'' @ hashHex (digest ''SHA-256'' buf))))
      in case attempt of
           Inl msg \<Rightarrow> Inl (''Failed to compute hash: '' @ msg)
         | Inr h \<Rightarrow> Inr h)"

text \<open>
  The rendering the specification asks for, written from its words: the two-character
  marker, then for every byte of the digest its high and its low hexadecimal digit in
  lowercase.
\<close>

definition spec_hash_format :: "byte list \<Rightarrow> string" where
  "spec_hash_format d =
     ''0x'' @ concat (map (\<lambda>b. [hexDigit (unat b div 16), hexDigit (unat b mod 16)]) d)"

definition lowerHexChar :: "char \<Rightarrow> bool" where
  "lowerHexChar c = (c \<in> set ''0123456789abcdef'')"

section \<open>The approval orchestrator: supabase/functions/verify-certificate/index.ts\<close>

text \<open>
  A value that JavaScript tests with \<^verbatim>\<open>!v\<close>: a string that may be missing. A missing and
  an empty string are both falsy.
\<close>

definition falsy :: "string option \<Rightarrow> bool" where
  "falsy v = (v = None \<or> v = Some [])"

text \<open>\<^verbatim>\<open>String.prototype.replace(pattern, replacement)\<close> with a string pattern: the first match only.\<close>

fun replace :: "string \<Rightarrow> string \<Rightarrow> string \<Rightarrow> string" where
  "replace pat rep [] = (if pat = [] then rep else [])"
| "replace pat rep (c # cs) =
     (if take (length pat) (c # cs) = pat then rep @ drop (length pat) (c # cs)
      else c # replace pat rep cs)"

text \<open>
  The request body after \<^verbatim>\<open>req.json()\<close>: the four members of \<open>VerifyRequest\<close>, typed as the
  interface declares them (\<open>None\<close> for a member that is missing), and whatever other
  members the JSON object holds, which the handler never reads.
\<close>

record verifyRequest =
  certificateId :: "string option"
  donorWalletAddress :: "string option"
  eligibleArg :: bool
  adminNotes :: "string option"
  otherMembers :: "(string \<times> string) list"

text \<open>A request: its method, its \<open>Authorization\<close> header, and its body or the message of the parse error.\<close>

record request =
  httpMethod :: string
  authorization :: "string option"
  json :: "string + verifyRequest"

text \<open>
  A row of \<open>donor_certificates\<close> (the columns of the two SQL migrations; the row id is
  the key of the store, and the two columns the database fills by itself,
  \<open>created_at\<close> and \<open>updated_at\<close>, are left out). \<open>None\<close> is SQL \<open>null\<close>.
\<close>

record certificate =
  donor_id :: string
  file_path :: string
  cert_hash :: "string option"
  donor_wallet_address :: "string option"
  cert_eligible :: "bool option"
  tx_hash :: "string option"
  chain_address :: "string option"
  admin_notes :: "string option"
  verified_at :: "string option"
  reviewed_by :: "string option"

type_synonym store = "string \<rightharpoonup> certificate"

text \<open>The object passed to \<^verbatim>\<open>.update({...})\<close>, and its effect on a row.\<close>

record certificateUpdate =
  new_cert_hash :: string
  new_eligible :: bool
  new_tx_hash :: string
  new_chain_address :: string
  new_verified_at :: string
  new_reviewed_by :: string
  new_admin_notes :: "string option"

definition applyUpdate :: "certificateUpdate \<Rightarrow> certificate \<Rightarrow> certificate" where
  "applyUpdate u row =
     row\<lparr>cert_hash := Some (new_cert_hash u), cert_eligible := Some (new_eligible u),
         tx_hash := Some (new_tx_hash u), chain_address := Some (new_chain_address u),
         verified_at := Some (new_verified_at u), reviewed_by := Some (new_reviewed_by u),
         admin_notes := new_admin_notes u\<rparr>"

text \<open>The answer \<^verbatim>\<open>{ data, error }\<close> of a storage download.\<close>

datatype download = DownloadError string | NoData | FileData "byte list"

text \<open>
  The calls that leave the process, in the order made: to the identity provider, the
  record store, the file store and the ledger.
\<close>

datatype effect =
  AuthGetUser string
| SelectProfile string
| SelectCertificate string
| StorageDownload string
| LedgerSubmit string string bool
| LedgerWait string
| StoreUpdate string certificateUpdate
| LedgerVerify string string
| LedgerGetRecord string
| StorageUpload string
| StoreInsert certificate

text \<open>
  What the collaborators of the handler answer. A library call that throws is \<open>Some\<close> or
  \<open>Inl\<close> of the message of the error.
  \<^item> \<open>envGet\<close>: \<^verbatim>\<open>Deno.env.get\<close>;
  \<^item> \<open>createClient\<close>: the message thrown by \<^verbatim>\<open>createClient(url, key)\<close>, if it throws;
  \<^item> \<open>getUser\<close>: the id of the user of a token, \<open>None\<close> when \<open>authError || !user\<close>;
  \<^item> \<open>profileRole\<close>: the role in \<open>user_profiles\<close>, \<open>None\<close> when \<open>profileError || !profile\<close>;
  \<^item> \<open>isAddress\<close>: \<^verbatim>\<open>ethers.isAddress\<close>;
  \<^item> \<open>selectFails\<close>: the select of the certificate row ends in \<open>certError\<close>;
  \<^item> \<open>storageDownload\<close>: the file store;
  \<^item> \<open>cryptoDigest\<close>: \<^verbatim>\<open>crypto.subtle.digest\<close>;
  \<^item> \<open>connect\<close>: the message thrown while provider, wallet and contract are built, if any;
  \<^item> \<open>storeVerificationTx\<close>: \<^verbatim>\<open>contract.storeVerification(...)\<close>, the transaction hash or the
    message thrown;
  \<^item> \<open>waitTx\<close>: \<^verbatim>\<open>tx.wait()\<close>, the block number of the receipt or the message thrown;
  \<^item> \<open>updateFails\<close>: the update of the row ends in \<open>updateError\<close>;
  \<^item> \<open>now\<close>: \<^verbatim>\<open>new Date().toISOString()\<close> at its first and second use.
\<close>

record world =
  envGet :: "string \<Rightarrow> string option"
  createClient :: "string option \<Rightarrow> string option \<Rightarrow> string option"
  getUser :: "string \<Rightarrow> string option"
  profileRole :: "string \<Rightarrow> string option"
  isAddress :: "string \<Rightarrow> bool"
  selectFails :: "string \<Rightarrow> bool"
  storageDownload :: "string \<Rightarrow> download"
  cryptoDigest :: "string \<Rightarrow> byte list \<Rightarrow> byte list"
  connect :: "string \<Rightarrow> string \<Rightarrow> string \<Rightarrow> string option"
  storeVerificationTx :: "string \<Rightarrow> string \<Rightarrow> bool \<Rightarrow> string + string"
  waitTx :: "string \<Rightarrow> string + nat"
  updateFails :: "string \<Rightarrow> bool"
  now :: "nat \<Rightarrow> string"

text \<open>
  The responses: the answer to a CORS preflight, the success object (status 200), and
  the error object \<^verbatim>\<open>{ success: false, error }\<close> of the \<open>catch\<close> block (status 400).
\<close>

datatype response =
  Preflight
| Success string string string nat string bool string
| Failure string


text \<open>The \<open>catch\<close> block: \<^verbatim>\<open>error: error.message || 'Internal server error'\<close>.\<close>

definition caught :: "string \<Rightarrow> response" where
  "caught message = Failure (if message = [] then ''Internal server error'' else message)"

text \<open>Lines 45 to 72: the client, the token, the user and the role. Returns the user id.\<close>

definition authenticate :: "world \<Rightarrow> request \<Rightarrow> (string + string) \<times> effect list" where
  "authenticate w req =
     (case createClient w (envGet w ''SUPABASE_URL'') (envGet w ''SUPABASE_SERVICE_ROLE_KEY'') of
        Some message \<Rightarrow> (Inl message, [])
      | None \<Rightarrow>
          (case authorization req of
             None \<Rightarrow> (Inl ''Missing authorization header'', [])
           | Some authHeader \<Rightarrow>
               if authHeader = [] then (Inl ''Missing authorization header'', [])
               else
                 let token = replace ''Bearer '' [] authHeader
                 in (case getUser w token of
                       None \<Rightarrow> (Inl ''Unauthorized'', [AuthGetUser token])
                     | Some uid \<Rightarrow>
                         if profileRole w uid \<noteq> Some ''hospital''
                         then (Inl ''Only hospital staff can verify certificates'',
                               [AuthGetUser token, SelectProfile uid])
                         else (Inr uid, [AuthGetUser token, SelectProfile uid]))))"

text \<open>Lines 74 to 85: the body, its required members, the address format.\<close>

definition parseBody ::
  "world \<Rightarrow> request \<Rightarrow> string + (string \<times> string \<times> bool \<times> string option)" where
  "parseBody w req =
     (case json req of
        Inl message \<Rightarrow> Inl message
      | Inr body \<Rightarrow>
          (case (certificateId body, donorWalletAddress body) of
             (Some cid, Some addr) \<Rightarrow>
               if cid = [] \<or> addr = []
               then Inl ''Missing required fields: certificateId, donorWalletAddress''
               else if \<not> isAddress w addr then Inl ''Invalid Ethereum address format''
               else Inr (cid, addr, eligibleArg body, adminNotes body)
           | _ \<Rightarrow> Inl ''Missing required fields: certificateId, donorWalletAddress''))"

text \<open>Lines 87 to 110: the row, the file, the hash of the bytes just downloaded.\<close>

definition fetchAndHash :: "world \<Rightarrow> store \<Rightarrow> string \<Rightarrow> (string + string) \<times> effect list" where
  "fetchAndHash w db cid =
     (case (if selectFails w cid then None else db cid) of
        None \<Rightarrow> (Inl ''Certificate not found'', [SelectCertificate cid])
      | Some cert \<Rightarrow>
          (case storageDownload w (file_path cert) of
             DownloadError message \<Rightarrow>
               (Inl (''Failed to download certificate file: '' @ message),
                [SelectCertificate cid, StorageDownload (file_path cert)])
           | NoData \<Rightarrow>
               (Inl ''Failed to download certificate file: undefined'',
                [SelectCertificate cid, StorageDownload (file_path cert)])
           | FileData fileBytes \<Rightarrow>
               (Inr (computeFileHash (cryptoDigest w) fileBytes),
                [SelectCertificate cid, StorageDownload (file_path cert)])))"

text \<open>
  Lines 114 to 145: the configuration, the connection, the transaction and the wait
  for its receipt. Returns the transaction hash, the block number and the contract
  address.
\<close>

definition writeLedger ::
  "world \<Rightarrow> string \<Rightarrow> string \<Rightarrow> bool \<Rightarrow> (string + (string \<times> nat \<times> string)) \<times> effect list" where
  "writeLedger w addr certHashHex elig =
     (case (envGet w ''RPC_URL'', envGet w ''MINTER_PRIVATE_KEY'',
            envGet w ''DONOR_CONTRACT_ADDRESS'') of
        (Some rpcUrl, Some privateKey, Some contractAddress) \<Rightarrow>
          if rpcUrl = [] \<or> privateKey = [] \<or> contractAddress = []
          then (Inl ''Missing blockchain configuration environment variables'', [])
          else
            (case connect w rpcUrl privateKey contractAddress of
               Some message \<Rightarrow> (Inl message, [])
             | None \<Rightarrow>
                 (case storeVerificationTx w addr certHashHex elig of
                    Inl message \<Rightarrow> (Inl message, [LedgerSubmit addr certHashHex elig])
                  | Inr txHash \<Rightarrow>
                      (case waitTx w txHash of
                         Inl message \<Rightarrow>
                           (Inl message, [LedgerSubmit addr certHashHex elig, LedgerWait txHash])
                       | Inr blockNumber \<Rightarrow>
                           (Inr (txHash, blockNumber, contractAddress),
                            [LedgerSubmit addr certHashHex elig, LedgerWait txHash]))))
      | _ \<Rightarrow> (Inl ''Missing blockchain configuration environment variables'', []))"

text \<open>
  Lines 147 to 165: the update of the row. A failed update leaves the store as it was;
  a successful one changes the row with the given id, if there is one.
\<close>

definition updateStore ::
  "world \<Rightarrow> store \<Rightarrow> string \<Rightarrow> certificateUpdate \<Rightarrow> (string + unit) \<times> store \<times> effect list" where
  "updateStore w db cid u =
     (if updateFails w cid
      then (Inl ''Blockchain verification successful but database update failed'', db,
            [StoreUpdate cid u])
      else (Inr (), db(cid := map_option (applyUpdate u) (db cid)), [StoreUpdate cid u]))"

text \<open>
  The handler passed to \<open>serve\<close>: the response, the record store afterwards, and the
  external calls made, in order. Every \<open>throw\<close> inside the \<open>try\<close> ends in the \<open>catch\<close> block.
\<close>

definition serve :: "world \<Rightarrow> request \<Rightarrow> store \<Rightarrow> response \<times> store \<times> effect list" where
  "serve w req db =
     (if httpMethod req = ''OPTIONS'' then (Preflight, db, [])
      else
        (case authenticate w req of
           (Inl message, t1) \<Rightarrow> (caught message, db, t1)
         | (Inr uid, t1) \<Rightarrow>
             (case parseBody w req of
                Inl message \<Rightarrow> (caught message, db, t1)
              | Inr (cid, addr, elig, notes) \<Rightarrow>
                  (case fetchAndHash w db cid of
                     (Inl message, t2) \<Rightarrow> (caught message, db, t1 @ t2)
                   | (Inr certHashHex, t2) \<Rightarrow>
                       (case writeLedger w addr certHashHex elig of
                          (Inl message, t3) \<Rightarrow> (caught message, db, t1 @ t2 @ t3)
                        | (Inr (txHash, blockNumber, contractAddress), t3) \<Rightarrow>
                            (case updateStore w db cid
                                    \<lparr>new_cert_hash = certHashHex, new_eligible = elig,
                                     new_tx_hash = txHash, new_chain_address = contractAddress,
                                     new_verified_at = now w 0, new_reviewed_by = uid,
                                     new_admin_notes = (if falsy notes then None else notes)\<rparr> of
                               (Inl message, db', t4) \<Rightarrow> (caught message, db', t1 @ t2 @ t3 @ t4)
                             | (Inr _, db', t4) \<Rightarrow>
                                 (Success cid certHashHex txHash blockNumber contractAddress elig
                                    (now w 1),
                                  db', t1 @ t2 @ t3 @ t4)))))))"

text \<open>Classifiers of calls, and the update object the handler builds.\<close>

fun isStoreUpdate :: "effect \<Rightarrow> bool" where
  "isStoreUpdate (StoreUpdate _ _) = True"
| "isStoreUpdate _ = False"

fun isLedgerSubmit :: "effect \<Rightarrow> bool" where
  "isLedgerSubmit (LedgerSubmit _ _ _) = True"
| "isLedgerSubmit _ = False"

fun isLedgerCall :: "effect \<Rightarrow> bool" where
  "isLedgerCall (LedgerSubmit _ _ _) = True"
| "isLedgerCall (LedgerWait _) = True"
| "isLedgerCall _ = False"

fun isIdentityCall :: "effect \<Rightarrow> bool" where
  "isIdentityCall (AuthGetUser _) = True"
| "isIdentityCall (SelectProfile _) = True"
| "isIdentityCall _ = False"

definition updateOf ::
  "world \<Rightarrow> string \<Rightarrow> string \<Rightarrow> bool \<Rightarrow> string option \<Rightarrow> string \<Rightarrow> string \<Rightarrow> certificateUpdate" where
  "updateOf w uid certHashHex elig adminNote txHash contractAddress =
     \<lparr>new_cert_hash = certHashHex, new_eligible = elig,
      new_tx_hash = txHash, new_chain_address = contractAddress,
      new_verified_at = now w 0, new_reviewed_by = uid,
      new_admin_notes = (if falsy adminNote then None else adminNote)\<rparr>"

text \<open>
  The ledger write of a call fails when the submission throws, or when it returns a
  transaction whose wait throws.
\<close>

definition ledgerWriteFails :: "world \<Rightarrow> string \<Rightarrow> string \<Rightarrow> bool \<Rightarrow> bool" where
  "ledgerWriteFails w addr certHashHex elig =
     (case storeVerificationTx w addr certHashHex elig of
        Inl _ \<Rightarrow> True
      | Inr txHash \<Rightarrow> (case waitTx w txHash of Inl _ \<Rightarrow> True | Inr _ \<Rightarrow> False))"


text \<open>Two requests, or two stores, that differ only in what the handler must not trust.\<close>

definition withMembers :: "(string \<times> string) list \<Rightarrow> request \<Rightarrow> request" where
  "withMembers members req =
     req\<lparr>json := (case json req of
                     Inl message \<Rightarrow> Inl message
                   | Inr body \<Rightarrow> Inr (body\<lparr>otherMembers := members\<rparr>))\<rparr>"

definition sameButStoredHash :: "store \<Rightarrow> store \<Rightarrow> bool" where
  "sameButStoredHash db1 db2 =
     (\<forall>cid. map_option (\<lambda>row. row\<lparr>cert_hash := None\<rparr>) (db1 cid) =
            map_option (\<lambda>row. row\<lparr>cert_hash := None\<rparr>) (db2 cid))"

section \<open>The browser side: services and form handlers\<close>

text \<open>
  The address check of the forms: \<^verbatim>\<open>/^0x[a-fA-F0-9]{40}$/.test(walletAddress)\<close>. The
  pattern is anchored at both ends and has no flags, so it matches the whole string. A
  character outside ASCII is no hexadecimal digit, whether a string counts it as one
  UTF-16 unit or as several bytes.
\<close>

definition isHexChar :: "char \<Rightarrow> bool" where
  "isHexChar c = (c \<in> set ''0123456789abcdefABCDEF'')"

definition isWalletAddress :: "string \<Rightarrow> bool" where
  "isWalletAddress str = (length str = 42 \<and> take 2 str = ''0x'' \<and> list_all isHexChar (drop 2 str))"

text \<open>
  What the browser and the services behind it answer:
  \<^item> \<open>subtle\<close>: \<^verbatim>\<open>window.crypto.subtle\<close>, \<open>None\<close> where the browser has none;
  \<^item> \<open>viteContractAddress\<close>: \<^verbatim>\<open>import.meta.env.VITE_CONTRACT_ADDRESS\<close>;
  \<^item> \<open>callVerify\<close>, \<open>callGetRecord\<close>, \<open>callHasRecord\<close>: the read calls on the contract, each the
    decoded tuple or the message of the error thrown;
  \<^item> \<open>storageUpload\<close>: the upload to the file store, \<open>data.path\<close> or the message of the error;
  \<^item> \<open>insertRecord\<close>: the message of the error of the insert, if any;
  \<^item> \<open>dateNow\<close>: \<^verbatim>\<open>Date.now()\<close> as it is printed into the path.
\<close>

record browser =
  subtle :: "(string \<Rightarrow> byte list \<Rightarrow> byte list) option"
  viteContractAddress :: "string option"
  callVerify :: "string \<Rightarrow> string \<Rightarrow> string + (bool \<times> nat \<times> bool)"
  callGetRecord :: "string \<Rightarrow> string + (string \<times> bool \<times> nat \<times> bool)"
  callHasRecord :: "string \<Rightarrow> string + bool"
  storageUpload :: "string \<Rightarrow> string + string"
  insertRecord :: "certificate \<Rightarrow> string option"
  dateNow :: string

text \<open>\<open>getContract\<close> of the service (unnamed/part_002): throws without a configured address.\<close>

definition getContract :: "browser \<Rightarrow> string + unit" where
  "getContract br =
     (if falsy (viteContractAddress br) then Inl ''Contract address not configured'' else Inr ())"

text \<open>
  The object \<open>verifyHashOnBlockchain\<close> returns. \<open>verTimestamp\<close> holds the integer handed to
  \<^verbatim>\<open>Number(...)\<close>, and \<open>verTimestampDate\<close> the number of milliseconds handed to
  \<^verbatim>\<open>new Date(...)\<close>, \<open>None\<close> for \<open>null\<close>.
\<close>

record verification =
  verEligible :: bool
  verTimestamp :: nat
  verMatches :: bool
  verTimestampDate :: "nat option"




text \<open>\<open>hasBlockchainRecord\<close>: its \<open>catch\<close> block returns \<open>false\<close> instead of throwing.\<close>

definition hasBlockchainRecord :: "browser \<Rightarrow> string \<Rightarrow> string + bool" where
  "hasBlockchainRecord br donorAddress =
     (let attempt =
            (case getContract br of
               Inl message \<Rightarrow> Inl message
             | Inr _ \<Rightarrow> callHasRecord br donorAddress)
      in case attempt of
           Inl message \<Rightarrow> Inr False
         | Inr found \<Rightarrow> Inr found)"












section \<open>Sample inputs\<close>

text \<open>A ledger deployed by address 1 that holds one record, for address 5.\<close>

definition ledger1 :: contract where
  "ledger1 = snd (execute (storeVerification \<lparr>sender = 1, block_timestamp = 100\<rparr> 5 7 True)
                    (constructor 1))"

text \<open>Two further writes for address 5, by the admin.\<close>

definition ledger2 :: contract where
  "ledger2 = snd (execute (storeVerification \<lparr>sender = 1, block_timestamp = 200\<rparr> 5 9 False)
                    ledger1)"

definition ledger3 :: contract where
  "ledger3 = snd (execute (storeVerification \<lparr>sender = 1, block_timestamp = 300\<rparr> 5 11 True)
                    ledger2)"

text \<open>
  A stand-in for the platform digest with the output length of SHA-256, used to
  instantiate statements that are proved for every digest function of that length.
\<close>

definition sampleDigest :: "string \<Rightarrow> byte list \<Rightarrow> byte list" where
  "sampleDigest alg bs = take 32 (bs @ replicate 32 0)"

text \<open>
  A world in which every collaborator answers: one hospital user behind the token
  \<open>token1\<close>, a file of two bytes in the file store, a ledger that confirms in block 42.
  The address check is the one of the forms.
\<close>

definition sampleAddress :: string where
  "sampleAddress = ''0x52908400098527886E0F7030069857D2E4169EE7''"

definition world0 :: world where
  "world0 =
     \<lparr>envGet = (\<lambda>name. Some ''configured''),
      createClient = (\<lambda>url key. None),
      getUser = (\<lambda>token. if token = ''token1'' then Some ''staff1'' else None),
      profileRole = (\<lambda>uid. Some ''hospital''),
      isAddress = isWalletAddress,
      selectFails = (\<lambda>cid. False),
      storageDownload = (\<lambda>path. FileData [0xde, 0xad]),
      cryptoDigest = sampleDigest,
      connect = (\<lambda>rpcUrl privateKey contractAddress. None),
      storeVerificationTx = (\<lambda>addr certHashHex elig. Inr ''0xtx1''),
      waitTx = (\<lambda>txHash. Inr 42),
      updateFails = (\<lambda>cid. False),
      now = (\<lambda>k. ''2025-01-03T00:00:00.000Z'')\<rparr>"


text \<open>The same world with a ledger that rejects the submission, and one whose wait fails.\<close>

definition worldLedgerDown :: world where
  "worldLedgerDown = world0\<lparr>storeVerificationTx := (\<lambda>addr certHashHex elig. Inl ''execution reverted'')\<rparr>"

definition worldWaitDown :: world where
  "worldWaitDown = world0\<lparr>waitTx := (\<lambda>txHash. Inl ''transaction failed'')\<rparr>"


text \<open>A pending certificate with a stale stored hash, and the request that approves it.\<close>

definition row0 :: certificate where
  "row0 =
     \<lparr>donor_id = ''donor1'', file_path = ''donor1/1_cert.pdf'', cert_hash = Some ''0xstale'',
      donor_wallet_address = Some sampleAddress, cert_eligible = None, tx_hash = None,
      chain_address = None, admin_notes = None, verified_at = None, reviewed_by = None\<rparr>"

definition store0 :: store where
  "store0 = [''cert1'' \<mapsto> row0]"

definition body0 :: verifyRequest where
  "body0 =
     \<lparr>certificateId = Some ''cert1'', donorWalletAddress = Some sampleAddress,
      eligibleArg = True, adminNotes = Some ''reviewed'', otherMembers = []\<rparr>"

definition request0 :: request where
  "request0 = \<lparr>httpMethod = ''POST'', authorization = Some ''Bearer token1'', json = Inr body0\<rparr>"


definition update0 :: certificateUpdate where
  "update0 =
     \<lparr>new_cert_hash = ''0xdead000000000000000000000000000000000000000000000000000000000000'',
      new_eligible = True, new_tx_hash = ''0xtx1'', new_chain_address = ''configured'',
      new_verified_at = ''2025-01-03T00:00:00.000Z'', new_reviewed_by = ''staff1'',
      new_admin_notes = Some ''reviewed''\<rparr>"

definition trace0 :: "effect list" where
  "trace0 =
     [AuthGetUser ''token1'', SelectProfile ''staff1'', SelectCertificate ''cert1'',
      StorageDownload ''donor1/1_cert.pdf'',
      LedgerSubmit sampleAddress
        ''0xdead000000000000000000000000000000000000000000000000000000000000'' True,
      LedgerWait ''0xtx1'', StoreUpdate ''cert1'' update0]"

text \<open>A browser with the Web Crypto interface, in front of a ledger that knows one address.\<close>

definition browser0 :: browser where
  "browser0 =
     \<lparr>subtle = Some sampleDigest,
      viteContractAddress = Some ''0x5FbDB2315678afecb367f032d93F642f64180aa3'',
      callVerify = (\<lambda>donorAddress certHashHex.
        if donorAddress = sampleAddress
        then Inr (True, 100,
               certHashHex = ''0xdead000000000000000000000000000000000000000000000000000000000000'')
        else Inr (False, 0, False)),
      callGetRecord = (\<lambda>donorAddress.
        if donorAddress = sampleAddress
        then Inr (''0xdead000000000000000000000000000000000000000000000000000000000000'',
               True, 100, True)
        else Inr (''0x0000000000000000000000000000000000000000000000000000000000000000'',
               False, 0, False)),
      callHasRecord = (\<lambda>donorAddress. Inr (donorAddress = sampleAddress)),
      storageUpload = (\<lambda>path. Inr path),
      insertRecord = (\<lambda>certificateData. None),
      dateNow = ''1735862400000''\<rparr>"

text \<open>The same browser in front of a ledger that cannot be reached.\<close>

definition browserOffline :: browser where
  "browserOffline =
     browser0\<lparr>callVerify := (\<lambda>donorAddress certHashHex. Inl ''network error''),
              callGetRecord := (\<lambda>donorAddress. Inl ''network error''),
              callHasRecord := (\<lambda>donorAddress. Inl ''network error'')\<rparr>"

definition otherAddress :: string where
  "otherAddress = ''0x8617E340B3D01FA5F11F306F4090FD50E238070D''"

section \<open>Properties of the ledger\<close>


lemma history_ok_snoc:
  "history_ok l (es @ [ev]) = (history_ok l es \<and> follows (foldl written l es) ev)"
  by (induction es arbitrary: l) auto

lemma writes_of_snoc:
  "writes_of a (es @ [ev]) = (if about a ev then writes_of a es @ [ev] else writes_of a es)"
  by (simp add: writes_of_def)

lemma storeVerification_Inr:
  "storeVerification m d h e s = Inr s' \<Longrightarrow>
     sender m = admin s \<and> h \<noteq> 0 \<and>
     admin s' = admin s \<and>
     records s' = (records s)(d := \<lparr>donor = d, certHash = h, eligible = e,
                                   timestamp = block_timestamp m, exists = True\<rparr>) \<and>
     events s' = events s @
       [if exists (records s d)
        then RecordUpdated d (certHash (records s d)) h e (block_timestamp m)
        else RecordAdded d h e (block_timestamp m) (sender m)]"
  by (auto simp: storeVerification_def onlyAdmin_def Let_def split: if_splits)

lemma storeVerification_Inl:
  "sender m \<noteq> admin s \<or> h = 0 \<Longrightarrow>
     storeVerification m d h e s =
       Inl (if sender m \<noteq> admin s then ''Only admin can call this function''
            else ''Certificate hash cannot be empty'')"
  by (auto simp: storeVerification_def onlyAdmin_def)

lemma changeAdmin_Inr:
  "changeAdmin m a s = Inr s' \<Longrightarrow>
     records s' = records s \<and> events s' = events s @ [AdminChanged (admin s) a]"
  by (auto simp: changeAdmin_def onlyAdmin_def Let_def split: if_splits)

lemma execute_cases:
  "snd (execute call s) = s \<or> (\<exists>s'. call s = Inr s' \<and> snd (execute call s) = s')"
  by (cases "call s") (simp_all add: execute_def)

lemma ledger_inv_store:
  assumes "ledger_inv s a" and "storeVerification m d h e s = Inr s'"
  shows "ledger_inv s' a"
proof -
  note st = storeVerification_Inr [OF assms(2)]
  show ?thesis
  proof (cases "d = a")
    case False
    with st assms(1) show ?thesis
      by (simp add: ledger_inv_def writes_of_snoc)
  next
    case True
    with st assms(1) show ?thesis
      by (auto simp: ledger_inv_def last_written_def writes_of_snoc history_ok_snoc
            zeroRecord_def split: if_splits)
  qed
qed

lemma ledger_inv_change:
  assumes "ledger_inv s a" and "changeAdmin m b s = Inr s'"
  shows "ledger_inv s' a"
  using assms(1) changeAdmin_Inr [OF assms(2)]
  by (simp add: ledger_inv_def writes_of_snoc)

lemma reachable_inv: "reachable s \<Longrightarrow> ledger_inv s a"
proof (induction rule: reachable.induct)
  case (deployed deployer)
  show ?case
    by (simp add: ledger_inv_def constructor_def writes_of_def zeroRecord_def)
next
  case (stored s m d h e)
  from execute_cases [of "storeVerification m d h e" s] stored.IH show ?case
    by (auto intro: ledger_inv_store)
next
  case (admin_changed s m b)
  from execute_cases [of "changeAdmin m b" s] admin_changed.IH show ?case
    by (auto intro: ledger_inv_change)
qed

lemma two_writes:
  assumes "storeVerification m1 a h1 e1 s = Inr s1"
    and "storeVerification m2 a h2 e2 s1 = Inr s2"
  shows "getRecord s2 a = (h2, e2, block_timestamp m2, True) \<and>
         events s2 = events s @
           [if exists (records s a)
            then RecordUpdated a (certHash (records s a)) h1 e1 (block_timestamp m1)
            else RecordAdded a h1 e1 (block_timestamp m1) (sender m1),
            RecordUpdated a h1 h2 e2 (block_timestamp m2)]"
  using storeVerification_Inr [OF assms(1)] storeVerification_Inr [OF assms(2)]
  by (simp add: getRecord_def)


lemma ledger1_eq:
  "ledger1 = \<lparr>records = (\<lambda>_. zeroRecord)
                 (5 := \<lparr>donor = 5, certHash = 7, eligible = True, timestamp = 100, exists = True\<rparr>),
               admin = 1, events = [RecordAdded 5 7 True 100 1]\<rparr>"
  by (simp add: ledger1_def execute_def storeVerification_def onlyAdmin_def constructor_def
        zeroRecord_def)

lemma reachable_ledger1: "reachable ledger1"
  unfolding ledger1_def by (intro reachable.stored reachable.deployed)

text \<open>
  Claim C2. A \<open>storeVerification\<close> transaction whose sender is not the stored admin, or
  whose hash is the all-zero value, reverts with the reason of the failed check. The
  ledger afterwards is the ledger before: \<open>getRecord\<close> answers the same for every
  address and the event log has not grown, so no \<open>RecordAdded\<close> or \<open>RecordUpdated\<close> was
  emitted.
\<close>

theorem storeVerification_rejected_unchanged:
  assumes "sender m \<noteq> admin s \<or> h = 0"
  shows "fst (execute (storeVerification m a h e) s) =
           Inl (if sender m \<noteq> admin s then ''Only admin can call this function''
                else ''Certificate hash cannot be empty'') \<and>
         snd (execute (storeVerification m a h e) s) = s \<and>
         getRecord (snd (execute (storeVerification m a h e) s)) x = getRecord s x \<and>
         events (snd (execute (storeVerification m a h e) s)) = events s"
  using storeVerification_Inl [OF assms, of a e] by (simp add: execute_def)

theorem storeVerification_rejected_unchanged_witness:
  "execute (storeVerification \<lparr>sender = 2, block_timestamp = 100\<rparr> 5 7 True) (constructor 1) =
     (Inl ''Only admin can call this function'', constructor 1) \<and>
   execute (storeVerification \<lparr>sender = 1, block_timestamp = 100\<rparr> 5 0 True) (constructor 1) =
     (Inl ''Certificate hash cannot be empty'', constructor 1)"
  using storeVerification_rejected_unchanged
          [of "\<lparr>sender = 2, block_timestamp = 100\<rparr>" "constructor 1" 7 5 True]
        storeVerification_rejected_unchanged
          [of "\<lparr>sender = 1, block_timestamp = 100\<rparr>" "constructor 1" 0 5 True]
  by (simp add: constructor_def prod_eq_iff)

text \<open>
  Claim C3. \<open>verify\<close> is a view function: it reads the ledger and returns a triple,
  never a new state. For an address without a record it returns \<open>(false, 0, false)\<close>;
  otherwise it returns the stored eligibility, the stored timestamp, and whether the
  given hash equals the stored hash.
\<close>

theorem verify_returns:
  "(\<not> exists (records s a) \<longrightarrow> verify s a h = (False, 0, False)) \<and>
   (exists (records s a) \<longrightarrow>
      verify s a h =
        (eligible (records s a), timestamp (records s a), h = certHash (records s a)))"
  by (auto simp: verify_def Let_def)

theorem verify_returns_witness:
  "verify ledger1 5 7 = (True, 100, True) \<and> verify ledger1 5 8 = (True, 100, False) \<and>
   verify ledger1 6 7 = (False, 0, False)"
  using verify_returns [of ledger1 5 7] verify_returns [of ledger1 5 8]
    verify_returns [of ledger1 6 7]
  by (simp add: ledger1_eq zeroRecord_def)

text \<open>
  Claim C4. In every reachable ledger state: no two slots hold a record of the same
  address; an address has a record exactly when the log holds a write event for it; the
  write events of an address begin with one \<open>RecordAdded\<close> and continue with
  \<open>RecordUpdated\<close> events, each carrying the hash written just before as its old hash.
  And after two successful writes in a row for an address, \<open>getRecord\<close> shows the hash,
  eligibility and timestamp of the second write only, while the log has gained the
  event of the first write (created if there was no record, updated otherwise) and an
  updated event of the second that carries the first write's hash as old hash.
\<close>

theorem ledger_overwrite_history:
  assumes "reachable s"
  shows "(\<forall>b. exists (records s b) \<and> donor (records s b) = a \<longrightarrow> b = a) \<and>
         (exists (records s a) \<longleftrightarrow> writes_of a (events s) \<noteq> []) \<and>
         history_ok None (writes_of a (events s)) \<and>
         (\<forall>m1 h1 e1 s1 m2 h2 e2 s2.
            storeVerification m1 a h1 e1 s = Inr s1 \<and> storeVerification m2 a h2 e2 s1 = Inr s2 \<longrightarrow>
              getRecord s2 a = (h2, e2, block_timestamp m2, True) \<and>
              events s2 = events s @
                [if exists (records s a)
                 then RecordUpdated a (certHash (records s a)) h1 e1 (block_timestamp m1)
                 else RecordAdded a h1 e1 (block_timestamp m1) (sender m1),
                 RecordUpdated a h1 h2 e2 (block_timestamp m2)])"
proof -
  have inv: "ledger_inv s b" for b
    using assms by (rule reachable_inv)
  have one: "\<forall>b. exists (records s b) \<and> donor (records s b) = a \<longrightarrow> b = a"
    using inv by (auto simp: ledger_inv_def split: if_splits)
  have ex: "exists (records s a) \<longleftrightarrow> writes_of a (events s) \<noteq> []"
    using inv [of a] by (auto simp: ledger_inv_def last_written_def split: if_splits)
  have hist: "history_ok None (writes_of a (events s))"
    using inv [of a] by (simp add: ledger_inv_def)
  from one ex hist two_writes show ?thesis by blast
qed


lemma store_ledger1:
  "storeVerification \<lparr>sender = 1, block_timestamp = 200\<rparr> 5 9 False ledger1 = Inr ledger2"
  by (simp add: ledger2_def execute_def storeVerification_def onlyAdmin_def ledger1_eq)

lemma store_ledger2:
  "storeVerification \<lparr>sender = 1, block_timestamp = 300\<rparr> 5 11 True ledger2 = Inr ledger3"
  by (simp add: ledger3_def ledger2_def execute_def storeVerification_def onlyAdmin_def
        ledger1_eq)

theorem ledger_overwrite_history_witness:
  "reachable ledger1 \<and>
   writes_of 5 (events ledger1) = [RecordAdded 5 7 True 100 1] \<and>
   history_ok None (writes_of 5 (events ledger1)) \<and>
   getRecord ledger3 5 = (11, True, 300, True) \<and>
   events ledger3 =
     [RecordAdded 5 7 True 100 1, RecordUpdated 5 7 9 False 200, RecordUpdated 5 9 11 True 300]"
proof -
  note inst = ledger_overwrite_history [OF reachable_ledger1, of 5]
  from inst have hist: "history_ok None (writes_of 5 (events ledger1))"
    by (elim conjE)
  from inst have
    "storeVerification \<lparr>sender = 1, block_timestamp = 200\<rparr> 5 9 False ledger1 = Inr ledger2 \<and>
     storeVerification \<lparr>sender = 1, block_timestamp = 300\<rparr> 5 11 True ledger2 = Inr ledger3 \<longrightarrow>
       getRecord ledger3 5 =
         (11, True, block_timestamp \<lparr>sender = 1, block_timestamp = 300\<rparr>, True) \<and>
       events ledger3 = events ledger1 @
         [if exists (records ledger1 5)
          then RecordUpdated 5 (certHash (records ledger1 5)) 9 False
                 (block_timestamp \<lparr>sender = 1, block_timestamp = 200\<rparr>)
          else RecordAdded 5 9 False (block_timestamp \<lparr>sender = 1, block_timestamp = 200\<rparr>)
                 (sender \<lparr>sender = 1, block_timestamp = 200\<rparr>),
          RecordUpdated 5 9 11 True (block_timestamp \<lparr>sender = 1, block_timestamp = 300\<rparr>)]"
    by (elim conjE allE)
  with store_ledger1 store_ledger2 hist reachable_ledger1 show ?thesis
    by (simp add: ledger1_eq writes_of_def)
qed

section \<open>Properties of the hash engine\<close>

lemma toString16_byte:
  "n < 256 \<Longrightarrow> padStart 2 ''0'' (toString16 n) = [hexDigit (n div 16), hexDigit (n mod 16)]"
proof (cases "n < 16")
  case True
  then show ?thesis
    by (simp add: toString16.simps [of n] padStart_def hexDigit_def)
next
  case False
  assume "n < 256"
  with False have "n div 16 < 16" by simp
  with False show ?thesis
    by (simp add: toString16.simps [of n] toString16.simps [of "n div 16"] padStart_def)
qed

lemma unat_byte: "unat (b :: byte) < 256"
  using unsigned_less [of b] by simp

lemma byte_div16: "unat (b :: byte) div 16 < 16"
  using unat_byte [of b] by simp

lemma hashHex_format: "''0x'' @ hashHex d = spec_hash_format d"
  by (simp add: hashHex_def spec_hash_format_def toString16_byte unat_byte)

lemma hexDigit_lower: "d < 16 \<Longrightarrow> lowerHexChar (hexDigit d)"
  unfolding lowerHexChar_def hexDigit_def
  by (rule nth_mem) simp

lemma spec_hash_format_length: "length (spec_hash_format d) = 2 + 2 * length d"
  by (induction d) (simp_all add: spec_hash_format_def)

lemma spec_hash_format_chars: "list_all lowerHexChar (drop 2 (spec_hash_format d))"
  by (induction d) (simp_all add: spec_hash_format_def hexDigit_lower byte_div16)

text \<open>
  Claim C1. Where the browser provides the Web Crypto interface and the platform digest
  for SHA-256 has its 32 bytes, the client function, given a file, blob or buffer that
  holds the bytes \<open>b\<close>, returns the very string the server function returns for \<open>b\<close>.
  That string is the digest in the format of the specification: the marker \<open>0x\<close> and
  then 64 lowercase hexadecimal characters. Both are functions of the bytes, hence
  deterministic.
\<close>

theorem hash_client_server_agree:
  assumes "length (digest ''SHA-256'' b) = 32"
    and "arrayBuffer input = Inr b"
  shows "computeCertificateHash (Some digest) input = Inr (computeFileHash digest b) \<and>
         computeFileHash digest b = spec_hash_format (digest ''SHA-256'' b) \<and>
         length (computeFileHash digest b) = 2 + 64 \<and>
         take 2 (computeFileHash digest b) = ''0x'' \<and>
         list_all lowerHexChar (drop 2 (computeFileHash digest b))"
proof -
  have fmt: "computeFileHash digest b = spec_hash_format (digest ''SHA-256'' b)"
    by (simp add: computeFileHash_def hashHex_format del: append.simps)
  have "computeCertificateHash (Some digest) input = Inr (computeFileHash digest b)"
    using assms(2) by (simp add: computeCertificateHash_def computeFileHash_def)
  moreover have "length (computeFileHash digest b) = 2 + 64"
    using assms(1) by (simp add: fmt spec_hash_format_length)
  moreover have "take 2 (computeFileHash digest b) = ''0x''"
    by (simp add: computeFileHash_def)
  moreover have "list_all lowerHexChar (drop 2 (computeFileHash digest b))"
    unfolding fmt by (rule spec_hash_format_chars)
  ultimately show ?thesis using fmt by simp
qed

lemma sample_hash:
  "computeFileHash sampleDigest [0xde, 0xad] =
     ''0xdead000000000000000000000000000000000000000000000000000000000000''"
  by code_simp

lemma sample_len: "length (sampleDigest ''SHA-256'' [0xde, 0xad]) = 32"
  by (simp add: sampleDigest_def)

theorem hash_client_server_agree_witness:
  "computeCertificateHash (Some sampleDigest) (File [0xde, 0xad]) =
     Inr ''0xdead000000000000000000000000000000000000000000000000000000000000'' \<and>
   computeFileHash sampleDigest [0xde, 0xad] =
     ''0xdead000000000000000000000000000000000000000000000000000000000000''"
  using hash_client_server_agree [of sampleDigest "[0xde, 0xad]" "File [0xde, 0xad]"] sample_len
  by (simp add: sample_hash)

section \<open>Properties of the approval orchestrator\<close>

lemma authenticate_effects:
  "x \<in> set (snd (authenticate w req)) \<Longrightarrow> isIdentityCall x"
  by (auto simp: authenticate_def Let_def split: option.splits if_splits)

lemma fetchAndHash_effects:
  "x \<in> set (snd (fetchAndHash w db cid)) \<Longrightarrow>
     x = SelectCertificate cid \<or> (\<exists>path. x = StorageDownload path)"
  by (auto simp: fetchAndHash_def split: option.splits download.splits if_splits)

lemma fetchAndHash_Inr:
  "fetchAndHash w db cid = (Inr hx, t) \<Longrightarrow>
     \<exists>cert fileBytes. db cid = Some cert \<and>
       storageDownload w (file_path cert) = FileData fileBytes \<and>
       hx = computeFileHash (cryptoDigest w) fileBytes \<and>
       t = [SelectCertificate cid, StorageDownload (file_path cert)]"
  by (auto simp: fetchAndHash_def split: option.splits download.splits if_splits)

lemma writeLedger_cases:
  "writeLedger w a hx e = (r, t) \<Longrightarrow>
     (t = [] \<and> (\<exists>message. r = Inl message)) \<or>
     (t = [LedgerSubmit a hx e] \<and>
        (\<exists>message. r = Inl message \<and> storeVerificationTx w a hx e = Inl message)) \<or>
     (\<exists>txHash. storeVerificationTx w a hx e = Inr txHash \<and>
        t = [LedgerSubmit a hx e, LedgerWait txHash] \<and>
        ((\<exists>message. r = Inl message \<and> waitTx w txHash = Inl message) \<or>
         (\<exists>blockNumber contractAddress. r = Inr (txHash, blockNumber, contractAddress) \<and>
             waitTx w txHash = Inr blockNumber)))"
  by (auto simp: writeLedger_def split: option.splits sum.splits if_splits)

lemma writeLedger_Inl:
  assumes "writeLedger w a hx e = (Inl message, t)"
  shows "(\<forall>x \<in> set t. isLedgerCall x) \<and>
         (\<forall>a' hx' e'. LedgerSubmit a' hx' e' \<in> set t \<longrightarrow> ledgerWriteFails w a' hx' e')"
  using writeLedger_cases [OF assms] by (auto simp: ledgerWriteFails_def)

lemma writeLedger_Inr:
  assumes "writeLedger w a hx e = (Inr (txHash, blockNumber, contractAddress), t)"
  shows "t = [LedgerSubmit a hx e, LedgerWait txHash] \<and>
         storeVerificationTx w a hx e = Inr txHash \<and> waitTx w txHash = Inr blockNumber"
  using writeLedger_cases [OF assms] by auto

lemma identity_not_others:
  "isIdentityCall x \<Longrightarrow> \<not> isStoreUpdate x \<and> \<not> isLedgerCall x \<and> \<not> isLedgerSubmit x"
  by (cases x) simp_all

lemma serve_cases [consumes 1, case_names preflight auth_failed body_rejected fetch_failed
    ledger_failed store_failed succeeded]:
  assumes "serve w req db = (resp, db', tr)"
  obtains
    "httpMethod req = ''OPTIONS''" "resp = Preflight" "db' = db" "tr = []"
  | message t1 where "httpMethod req \<noteq> ''OPTIONS''" "authenticate w req = (Inl message, t1)"
      "resp = caught message" "db' = db" "tr = t1"
  | uid t1 message where "httpMethod req \<noteq> ''OPTIONS''" "authenticate w req = (Inr uid, t1)"
      "parseBody w req = Inl message" "resp = caught message" "db' = db" "tr = t1"
  | uid t1 cid addr elig adminNote message t2 where "httpMethod req \<noteq> ''OPTIONS''"
      "authenticate w req = (Inr uid, t1)" "parseBody w req = Inr (cid, addr, elig, adminNote)"
      "fetchAndHash w db cid = (Inl message, t2)" "resp = caught message" "db' = db"
      "tr = t1 @ t2"
  | uid t1 cid addr elig adminNote hx t2 message t3 where "httpMethod req \<noteq> ''OPTIONS''"
      "authenticate w req = (Inr uid, t1)" "parseBody w req = Inr (cid, addr, elig, adminNote)"
      "fetchAndHash w db cid = (Inr hx, t2)" "writeLedger w addr hx elig = (Inl message, t3)"
      "resp = caught message" "db' = db" "tr = t1 @ t2 @ t3"
  | uid t1 cid addr elig adminNote hx t2 txHash blockNumber contractAddress t3 where
      "httpMethod req \<noteq> ''OPTIONS''"
      "authenticate w req = (Inr uid, t1)" "parseBody w req = Inr (cid, addr, elig, adminNote)"
      "fetchAndHash w db cid = (Inr hx, t2)"
      "writeLedger w addr hx elig = (Inr (txHash, blockNumber, contractAddress), t3)"
      "updateFails w cid"
      "resp = Failure ''Blockchain verification successful but database update failed''"
      "db' = db"
      "tr = t1 @ t2 @ t3 @
         [StoreUpdate cid (updateOf w uid hx elig adminNote txHash contractAddress)]"
  | uid t1 cid addr elig adminNote hx t2 txHash blockNumber contractAddress t3 where
      "httpMethod req \<noteq> ''OPTIONS''"
      "authenticate w req = (Inr uid, t1)" "parseBody w req = Inr (cid, addr, elig, adminNote)"
      "fetchAndHash w db cid = (Inr hx, t2)"
      "writeLedger w addr hx elig = (Inr (txHash, blockNumber, contractAddress), t3)"
      "\<not> updateFails w cid"
      "resp = Success cid hx txHash blockNumber contractAddress elig (now w 1)"
      "db' = db(cid := map_option
                  (applyUpdate (updateOf w uid hx elig adminNote txHash contractAddress))
                  (db cid))"
      "tr = t1 @ t2 @ t3 @
         [StoreUpdate cid (updateOf w uid hx elig adminNote txHash contractAddress)]"
proof (cases "httpMethod req = ''OPTIONS''")
  case True
  with assms have "resp = Preflight" "db' = db" "tr = []"
    by (simp_all add: serve_def)
  with True that(1) show ?thesis by blast
next
  case notOptions: False
  obtain r1 t1 where a: "authenticate w req = (r1, t1)"
    by (cases "authenticate w req")
  show ?thesis
  proof (cases r1)
    case (Inl message)
    with assms notOptions a have "resp = caught message" "db' = db" "tr = t1"
      by (simp_all add: serve_def)
    with notOptions a Inl that(2) show ?thesis by blast
  next
    case (Inr uid)
    note uid = this
    show ?thesis
    proof (cases "parseBody w req")
      case (Inl message)
      with assms notOptions a uid have "resp = caught message" "db' = db" "tr = t1"
        by (simp_all add: serve_def)
      with notOptions a uid Inl that(3) show ?thesis by blast
    next
      case (Inr parsed)
      obtain cid addr elig adminNote where p: "parsed = (cid, addr, elig, adminNote)"
        by (cases parsed)
      note body = Inr [unfolded p]
      obtain r2 t2 where f: "fetchAndHash w db cid = (r2, t2)"
        by (cases "fetchAndHash w db cid")
      show ?thesis
      proof (cases r2)
        case (Inl message)
        with assms notOptions a uid body f
        have "resp = caught message" "db' = db" "tr = t1 @ t2"
          by (simp_all add: serve_def)
        with notOptions a uid body f Inl that(4) show ?thesis by blast
      next
        case (Inr hx)
        note hx = this
        obtain r3 t3 where l: "writeLedger w addr hx elig = (r3, t3)"
          by (cases "writeLedger w addr hx elig")
        show ?thesis
        proof (cases r3)
          case (Inl message)
          with assms notOptions a uid body f hx l
          have "resp = caught message" "db' = db" "tr = t1 @ t2 @ t3"
            by (simp_all add: serve_def)
          with notOptions a uid body f hx l Inl that(5) show ?thesis by blast
        next
          case (Inr confirmed)
          obtain txHash blockNumber contractAddress
            where wr: "confirmed = (txHash, blockNumber, contractAddress)"
            by (cases confirmed)
          note conf = Inr [unfolded wr]
          show ?thesis
          proof (cases "updateFails w cid")
            case True
            with assms notOptions a uid body f hx l conf
            have "resp = Failure ''Blockchain verification successful but database update failed''"
              "db' = db"
              "tr = t1 @ t2 @ t3 @
                 [StoreUpdate cid (updateOf w uid hx elig adminNote txHash contractAddress)]"
              by (simp_all add: serve_def updateStore_def updateOf_def caught_def)
            with notOptions a uid body f hx l conf True that(6) show ?thesis by blast
          next
            case False
            with assms notOptions a uid body f hx l conf
            have "resp = Success cid hx txHash blockNumber contractAddress elig (now w 1)"
              "db' = db(cid := map_option
                  (applyUpdate (updateOf w uid hx elig adminNote txHash contractAddress))
                  (db cid))"
              "tr = t1 @ t2 @ t3 @
                 [StoreUpdate cid (updateOf w uid hx elig adminNote txHash contractAddress)]"
              by (simp_all add: serve_def updateStore_def updateOf_def)
            with notOptions a uid body f hx l conf False that(7) show ?thesis by blast
          qed
        qed
      qed
    qed
  qed
qed

lemma early_effects:
  assumes "authenticate w req = (r1, t1)" and "fetchAndHash w db cid = (r2, t2)"
  shows "\<forall>x \<in> set (t1 @ t2). \<not> isStoreUpdate x \<and> \<not> isLedgerCall x"
proof -
  have "\<forall>x \<in> set t1. \<not> isStoreUpdate x \<and> \<not> isLedgerCall x"
    using authenticate_effects [of _ w req] assms(1) identity_not_others by fastforce
  moreover have "\<forall>x \<in> set t2. \<not> isStoreUpdate x \<and> \<not> isLedgerCall x"
    using fetchAndHash_effects [of _ w db cid] assms(2) by fastforce
  ultimately show ?thesis by auto
qed

text \<open>
  Every run either leaves the store alone, makes no update call and confirms no ledger
  write, or ends with a confirmed ledger write followed by the one update call.
\<close>

lemma serve_shape:
  assumes "serve w req db = (resp, db', tr)"
  shows "(db' = db \<and> (\<forall>x \<in> set tr. \<not> isStoreUpdate x) \<and>
          (\<forall>a hx e. LedgerSubmit a hx e \<in> set tr \<longrightarrow>
             ledgerWriteFails w a hx e \<and> (\<exists>message. resp = Failure message))) \<or>
         (\<exists>pre cid a hx e txHash blockNumber u.
            tr = pre @ [LedgerSubmit a hx e, LedgerWait txHash, StoreUpdate cid u] \<and>
            (\<forall>x \<in> set pre. \<not> isStoreUpdate x \<and> \<not> isLedgerCall x) \<and>
            storeVerificationTx w a hx e = Inr txHash \<and> waitTx w txHash = Inr blockNumber \<and>
            (if updateFails w cid
             then db' = db \<and>
               resp = Failure ''Blockchain verification successful but database update failed''
             else db' = db(cid := map_option (applyUpdate u) (db cid)) \<and>
               (\<exists>contractAddress.
                  resp = Success cid hx txHash blockNumber contractAddress e (now w 1))))"
  using assms
proof (cases rule: serve_cases)
  case preflight
  then show ?thesis by simp
next
  case (auth_failed message t1)
  with authenticate_effects [of _ w req] identity_not_others show ?thesis
    by fastforce
next
  case (body_rejected uid t1 message)
  with authenticate_effects [of _ w req] identity_not_others show ?thesis
    by fastforce
next
  case (fetch_failed uid t1 cid addr elig adminNote message t2)
  from early_effects [OF fetch_failed(2) fetch_failed(4)] fetch_failed(6,7) show ?thesis
    by fastforce
next
  case (ledger_failed uid t1 cid addr elig adminNote hx t2 message t3)
  note early = early_effects [OF ledger_failed(2) ledger_failed(4)]
  note late = writeLedger_Inl [OF ledger_failed(5)]
  have "\<forall>x \<in> set tr. \<not> isStoreUpdate x"
  proof
    fix x assume "x \<in> set tr"
    with ledger_failed(8) have "x \<in> set (t1 @ t2) \<or> x \<in> set t3" by auto
    then show "\<not> isStoreUpdate x"
    proof
      assume "x \<in> set (t1 @ t2)" with early show ?thesis by blast
    next
      assume "x \<in> set t3"
      with late have "isLedgerCall x" by blast
      then show ?thesis by (cases x) simp_all
    qed
  qed
  moreover have "ledgerWriteFails w a' hx' e'" if "LedgerSubmit a' hx' e' \<in> set tr" for a' hx' e'
  proof -
    from that ledger_failed(8)
    have "LedgerSubmit a' hx' e' \<in> set (t1 @ t2) \<or> LedgerSubmit a' hx' e' \<in> set t3" by auto
    then show ?thesis
    proof
      assume "LedgerSubmit a' hx' e' \<in> set (t1 @ t2)"
      with early have "\<not> isLedgerCall (LedgerSubmit a' hx' e')" by blast
      then show ?thesis by simp
    next
      assume "LedgerSubmit a' hx' e' \<in> set t3" with late show ?thesis by blast
    qed
  qed
  moreover have "\<exists>m. resp = Failure m"
    using ledger_failed(6) by (simp add: caught_def)
  ultimately show ?thesis using ledger_failed(7) by blast
next
  case (store_failed uid t1 cid addr elig adminNote hx t2 txHash blockNumber contractAddress t3)
  note early = early_effects [OF store_failed(2) store_failed(4)]
  note late = writeLedger_Inr [OF store_failed(5)]
  let ?u = "updateOf w uid hx elig adminNote txHash contractAddress"
  have "tr = (t1 @ t2) @ [LedgerSubmit addr hx elig, LedgerWait txHash, StoreUpdate cid ?u]"
    using store_failed(9) late by simp
  with early late store_failed(6,7,8) show ?thesis by (intro disjI2 exI conjI) auto
next
  case (succeeded uid t1 cid addr elig adminNote hx t2 txHash blockNumber contractAddress t3)
  note early = early_effects [OF succeeded(2) succeeded(4)]
  note late = writeLedger_Inr [OF succeeded(5)]
  let ?u = "updateOf w uid hx elig adminNote txHash contractAddress"
  have "tr = (t1 @ t2) @ [LedgerSubmit addr hx elig, LedgerWait txHash, StoreUpdate cid ?u]"
    using succeeded(9) late by simp
  with early late succeeded(6,7,8) show ?thesis by (intro disjI2 exI conjI) auto
qed

subsection \<open>The sample runs\<close>

lemma sampleAddress_ok: "isWalletAddress sampleAddress \<and> sampleAddress \<noteq> []"
  by (simp add: isWalletAddress_def sampleAddress_def isHexChar_def)

lemmas run_defs =
  serve_def authenticate_def parseBody_def fetchAndHash_def writeLedger_def updateStore_def
  world0_def request0_def body0_def store0_def row0_def update0_def trace0_def
  sampleAddress_ok sample_hash falsy_def caught_def

lemma serve_world0:
  "serve world0 request0 store0 =
     (Success ''cert1'' ''0xdead000000000000000000000000000000000000000000000000000000000000''
        ''0xtx1'' 42 ''configured'' True ''2025-01-03T00:00:00.000Z'',
      store0(''cert1'' \<mapsto> applyUpdate update0 row0), trace0)"
  by (simp add: run_defs)


lemma serve_worldLedgerDown:
  "serve worldLedgerDown request0 store0 =
     (Failure ''execution reverted'', store0, take 5 trace0)"
  by (simp add: run_defs worldLedgerDown_def)

lemma serve_worldWaitDown:
  "serve worldWaitDown request0 store0 =
     (Failure ''transaction failed'', store0, take 6 trace0)"
  by (simp add: run_defs worldWaitDown_def)



text \<open>
  Claim C5. In every run of the handler, an update of the record store is the last call
  made, and the two calls just before it are the submission of the ledger write and the
  wait for its receipt, both of which succeeded; nothing before them touches the ledger
  or updates the store. Whenever the ledger write that was submitted fails, at the
  submission or at the wait, no update call is made, the record store is left as it
  was, so a pending certificate keeps its unset eligibility and its null transaction
  reference, and the response is a failure. The store changes only in runs that made the
  update call.
\<close>

theorem ledger_write_before_store_update:
  assumes "serve w req db = (resp, db', tr)"
  shows "(\<forall>cid u. StoreUpdate cid u \<in> set tr \<longrightarrow>
            (\<exists>pre addr hx elig txHash blockNumber.
               tr = pre @ [LedgerSubmit addr hx elig, LedgerWait txHash, StoreUpdate cid u] \<and>
               (\<forall>x \<in> set pre. \<not> isStoreUpdate x \<and> \<not> isLedgerCall x) \<and>
               storeVerificationTx w addr hx elig = Inr txHash \<and>
               waitTx w txHash = Inr blockNumber)) \<and>
         (\<forall>addr hx elig. LedgerSubmit addr hx elig \<in> set tr \<and> ledgerWriteFails w addr hx elig \<longrightarrow>
            (\<forall>x \<in> set tr. \<not> isStoreUpdate x) \<and> db' = db \<and>
            (\<forall>cid row. db cid = Some row \<and> cert_eligible row = None \<and> tx_hash row = None \<longrightarrow>
               (\<exists>row'. db' cid = Some row' \<and> cert_eligible row' = None \<and> tx_hash row' = None)) \<and>
            (\<exists>message. resp = Failure message)) \<and>
         (db' \<noteq> db \<longrightarrow> (\<exists>x \<in> set tr. isStoreUpdate x))"
proof -
  from serve_shape [OF assms] show ?thesis
  proof
    assume quiet: "db' = db \<and> (\<forall>x \<in> set tr. \<not> isStoreUpdate x) \<and>
      (\<forall>a hx e. LedgerSubmit a hx e \<in> set tr \<longrightarrow>
         ledgerWriteFails w a hx e \<and> (\<exists>message. resp = Failure message))"
    then have none: "StoreUpdate cid u \<notin> set tr" for cid u
      by (metis isStoreUpdate.simps(1))
    from quiet have same: "db' = db" and noUpdate: "\<forall>x \<in> set tr. \<not> isStoreUpdate x" and
      failure: "\<And>a hx e. LedgerSubmit a hx e \<in> set tr \<Longrightarrow> \<exists>message. resp = Failure message"
      by blast+
    show ?thesis
    proof (intro conjI allI impI)
      fix cid u assume "StoreUpdate cid u \<in> set tr"
      with none show "\<exists>pre addr hx elig txHash blockNumber.
               tr = pre @ [LedgerSubmit addr hx elig, LedgerWait txHash, StoreUpdate cid u] \<and>
               (\<forall>x \<in> set pre. \<not> isStoreUpdate x \<and> \<not> isLedgerCall x) \<and>
               storeVerificationTx w addr hx elig = Inr txHash \<and>
               waitTx w txHash = Inr blockNumber"
        by blast
    next
      show "\<forall>x \<in> set tr. \<not> isStoreUpdate x" by (rule noUpdate)
    next
      show "db' = db" by (rule same)
    next
      fix cid row
      assume "db cid = Some row \<and> cert_eligible row = None \<and> tx_hash row = None"
      with same show "\<exists>row'. db' cid = Some row' \<and> cert_eligible row' = None \<and> tx_hash row' = None"
        by simp
    next
      fix addr hx elig
      assume "LedgerSubmit addr hx elig \<in> set tr \<and> ledgerWriteFails w addr hx elig"
      with failure show "\<exists>message. resp = Failure message" by blast
    next
      assume "db' \<noteq> db"
      with same show "\<exists>x \<in> set tr. isStoreUpdate x" by simp
    qed
  next
    assume "\<exists>pre cid a hx e txHash blockNumber u.
        tr = pre @ [LedgerSubmit a hx e, LedgerWait txHash, StoreUpdate cid u] \<and>
        (\<forall>x \<in> set pre. \<not> isStoreUpdate x \<and> \<not> isLedgerCall x) \<and>
        storeVerificationTx w a hx e = Inr txHash \<and> waitTx w txHash = Inr blockNumber \<and>
        (if updateFails w cid
         then db' = db \<and>
           resp = Failure ''Blockchain verification successful but database update failed''
         else db' = db(cid := map_option (applyUpdate u) (db cid)) \<and>
           (\<exists>contractAddress.
              resp = Success cid hx txHash blockNumber contractAddress e (now w 1)))"
    then obtain pre cid a hx e txHash blockNumber u where
      tr: "tr = pre @ [LedgerSubmit a hx e, LedgerWait txHash, StoreUpdate cid u]" and
      pre: "\<forall>x \<in> set pre. \<not> isStoreUpdate x \<and> \<not> isLedgerCall x" and
      sub: "storeVerificationTx w a hx e = Inr txHash" and
      wt: "waitTx w txHash = Inr blockNumber"
      by blast
    have first: "\<exists>pre addr hx elig txHash blockNumber.
               tr = pre @ [LedgerSubmit addr hx elig, LedgerWait txHash, StoreUpdate cid' u'] \<and>
               (\<forall>x \<in> set pre. \<not> isStoreUpdate x \<and> \<not> isLedgerCall x) \<and>
               storeVerificationTx w addr hx elig = Inr txHash \<and>
               waitTx w txHash = Inr blockNumber"
      if "StoreUpdate cid' u' \<in> set tr" for cid' u'
    proof -
      from that tr pre have "cid' = cid \<and> u' = u" by auto
      with tr pre sub wt show ?thesis by blast
    qed
    have second: "\<not> ledgerWriteFails w a' hx' e'" if "LedgerSubmit a' hx' e' \<in> set tr" for a' hx' e'
    proof -
      from that tr pre have "a' = a \<and> hx' = hx \<and> e' = e" by auto
      with sub wt show ?thesis by (simp add: ledgerWriteFails_def)
    qed
    have third: "\<exists>x \<in> set tr. isStoreUpdate x"
      using tr by auto
    from first second third show ?thesis by blast
  qed
qed

theorem ledger_write_before_store_update_witness:
  "serve world0 request0 store0 =
     (Success ''cert1'' ''0xdead000000000000000000000000000000000000000000000000000000000000''
        ''0xtx1'' 42 ''configured'' True ''2025-01-03T00:00:00.000Z'',
      store0(''cert1'' \<mapsto> applyUpdate update0 row0), trace0) \<and>
   (\<exists>pre addr hx elig txHash blockNumber.
      trace0 = pre @ [LedgerSubmit addr hx elig, LedgerWait txHash, StoreUpdate ''cert1'' update0] \<and>
      storeVerificationTx world0 addr hx elig = Inr txHash \<and>
      waitTx world0 txHash = Inr blockNumber) \<and>
   serve worldLedgerDown request0 store0 = (Failure ''execution reverted'', store0, take 5 trace0) \<and>
   serve worldWaitDown request0 store0 = (Failure ''transaction failed'', store0, take 6 trace0) \<and>
   (\<exists>row'. store0 ''cert1'' = Some row' \<and> cert_eligible row' = None \<and> tx_hash row' = None)"
proof -
  have upd: "StoreUpdate ''cert1'' update0 \<in> set trace0"
    by (simp add: trace0_def)
  from ledger_write_before_store_update [OF serve_world0] upd
  have "\<exists>pre addr hx elig txHash blockNumber.
      trace0 = pre @ [LedgerSubmit addr hx elig, LedgerWait txHash, StoreUpdate ''cert1'' update0] \<and>
      storeVerificationTx world0 addr hx elig = Inr txHash \<and>
      waitTx world0 txHash = Inr blockNumber"
    by blast
  moreover
  have sub: "LedgerSubmit sampleAddress
      ''0xdead000000000000000000000000000000000000000000000000000000000000'' True
        \<in> set (take 5 trace0)"
    by (simp add: trace0_def)
  have fails: "ledgerWriteFails worldLedgerDown sampleAddress
      ''0xdead000000000000000000000000000000000000000000000000000000000000'' True"
    by (simp add: ledgerWriteFails_def worldLedgerDown_def world0_def)
  have pending: "store0 ''cert1'' = Some row0 \<and> cert_eligible row0 = None \<and> tx_hash row0 = None"
    by (simp add: store0_def row0_def)
  from ledger_write_before_store_update [OF serve_worldLedgerDown] sub fails pending
  have "\<exists>row'. store0 ''cert1'' = Some row' \<and> cert_eligible row' = None \<and> tx_hash row' = None"
    by blast
  ultimately show ?thesis
    using serve_world0 serve_worldLedgerDown serve_worldWaitDown by blast
qed

subsection \<open>What the submitted hash depends on\<close>

lemma fetchAndHash_sameButStoredHash:
  assumes "sameButStoredHash db db2"
  shows "fetchAndHash w db2 cid = fetchAndHash w db cid"
proof -
  from assms have eq: "map_option (\<lambda>row. row\<lparr>cert_hash := None\<rparr>) (db cid) =
      map_option (\<lambda>row. row\<lparr>cert_hash := None\<rparr>) (db2 cid)"
    by (simp add: sameButStoredHash_def)
  show ?thesis
  proof (cases "db cid")
    case None
    with eq have "db2 cid = None" by simp
    with None show ?thesis by (simp add: fetchAndHash_def)
  next
    case (Some row)
    with eq obtain row2 where r2: "db2 cid = Some row2"
      and same: "row\<lparr>cert_hash := None\<rparr> = row2\<lparr>cert_hash := None\<rparr>"
      by (cases "db2 cid") auto
    from same have "file_path (row\<lparr>cert_hash := None\<rparr>) = file_path (row2\<lparr>cert_hash := None\<rparr>)"
      by simp
    then have fp: "file_path row2 = file_path row" by simp
    show ?thesis by (simp add: fetchAndHash_def Some r2 fp split: download.splits)
  qed
qed

lemma serve_sameButStoredHash:
  assumes "sameButStoredHash db db2"
  shows "fst (serve w req db2) = fst (serve w req db) \<and>
         snd (snd (serve w req db2)) = snd (snd (serve w req db))"
  by (simp add: serve_def updateStore_def fetchAndHash_sameButStoredHash [OF assms]
        split: prod.splits sum.splits)

lemma serve_withMembers: "serve w (withMembers members req) db = serve w req db"
proof -
  have header: "authorization (withMembers members req) = authorization req"
    by (simp add: withMembers_def)
  have auth: "authenticate w (withMembers members req) = authenticate w req"
    unfolding authenticate_def header by (rule refl)
  have body: "parseBody w (withMembers members req) = parseBody w req"
    by (cases "json req") (simp_all add: parseBody_def withMembers_def split: option.splits)
  have meth: "httpMethod (withMembers members req) = httpMethod req"
    by (simp add: withMembers_def)
  show ?thesis unfolding serve_def auth body meth by (rule refl)
qed

lemma parseBody_Inr:
  "parseBody w req = Inr (cid, addr, elig, adminNote) \<Longrightarrow>
     \<exists>body. json req = Inr body \<and> certificateId body = Some cid \<and>
       donorWalletAddress body = Some addr \<and> eligibleArg body = elig \<and> isAddress w addr"
  by (auto simp: parseBody_def split: sum.splits option.splits if_splits)

text \<open>In a run past the download, the calls start as the first two phases made them.\<close>

lemma submit_position:
  assumes "authenticate w req = (r1, t1)"
    and "tr = t1 @ [SelectCertificate cid, StorageDownload path] @ LedgerSubmit a hx e # rest"
    and "\<forall>x \<in> set rest. \<not> isLedgerSubmit x"
    and "LedgerSubmit a' hx' e' \<in> set tr"
  shows "a' = a \<and> hx' = hx \<and> e' = e \<and>
         (\<exists>pre post. tr = pre @ StorageDownload path # LedgerSubmit a' hx' e' # post)"
proof -
  have "LedgerSubmit a' hx' e' \<notin> set t1"
  proof
    assume "LedgerSubmit a' hx' e' \<in> set t1"
    with authenticate_effects [of "LedgerSubmit a' hx' e'" w req] assms(1)
    show False by simp
  qed
  moreover have "LedgerSubmit a' hx' e' \<notin> set rest"
  proof
    assume "LedgerSubmit a' hx' e' \<in> set rest"
    with assms(3) have "\<not> isLedgerSubmit (LedgerSubmit a' hx' e')" by blast
    then show False by simp
  qed
  ultimately have same: "a' = a \<and> hx' = hx \<and> e' = e"
    using assms(2,4) by auto
  have "tr = (t1 @ [SelectCertificate cid]) @ StorageDownload path # LedgerSubmit a hx e # rest"
    using assms(2) by simp
  with same show ?thesis by blast
qed

text \<open>
  Claim C7. Whenever a run of the handler submits a write to the ledger, the hash it
  submits is the hash of the bytes the file store returned for the file of the
  certificate named in the request, downloaded in the call just before the submission.
  The run answers the same and makes the same calls, with the same submitted hash, for
  every record store that differs only in stored \<open>cert_hash\<close> values, and for every
  request that differs only in members of the body other than the four the handler
  reads, such as a hash supplied by the client.
\<close>

theorem submitted_hash_recomputed:
  assumes "serve w req db = (resp, db', tr)"
    and "LedgerSubmit addr hx elig \<in> set tr"
  shows "(\<exists>body cid cert fileBytes.
            json req = Inr body \<and> certificateId body = Some cid \<and> db cid = Some cert \<and>
            storageDownload w (file_path cert) = FileData fileBytes \<and>
            hx = computeFileHash (cryptoDigest w) fileBytes \<and>
            (\<exists>pre post.
               tr = pre @ StorageDownload (file_path cert) # LedgerSubmit addr hx elig # post)) \<and>
         (\<forall>db2. sameButStoredHash db db2 \<longrightarrow>
            fst (serve w req db2) = resp \<and> snd (snd (serve w req db2)) = tr) \<and>
         (\<forall>members. serve w (withMembers members req) db = (resp, db', tr))"
proof -
  have fresh: "\<exists>body cid cert fileBytes.
            json req = Inr body \<and> certificateId body = Some cid \<and> db cid = Some cert \<and>
            storageDownload w (file_path cert) = FileData fileBytes \<and>
            hx = computeFileHash (cryptoDigest w) fileBytes \<and>
            (\<exists>pre post.
               tr = pre @ StorageDownload (file_path cert) # LedgerSubmit addr hx elig # post)"
    using assms(1)
  proof (cases rule: serve_cases)
    case preflight
    with assms(2) show ?thesis by simp
  next
    case (auth_failed message t1)
    with authenticate_effects [of "LedgerSubmit addr hx elig" w req] assms(2) show ?thesis
      by simp
  next
    case (body_rejected uid t1 message)
    with authenticate_effects [of "LedgerSubmit addr hx elig" w req] assms(2) show ?thesis
      by simp
  next
    case (fetch_failed uid t1 cid a e adminNote message t2)
    from early_effects [OF fetch_failed(2) fetch_failed(4)] fetch_failed(7) assms(2)
    have "\<not> isLedgerCall (LedgerSubmit addr hx elig)" by blast
    then show ?thesis by simp
  next
    case (ledger_failed uid t1 cid a e adminNote h t2 message t3)
    from parseBody_Inr [OF ledger_failed(3)] obtain body where
      body: "json req = Inr body" "certificateId body = Some cid" by blast
    from fetchAndHash_Inr [OF ledger_failed(4)] obtain cert fileBytes where
      f: "db cid = Some cert" "storageDownload w (file_path cert) = FileData fileBytes"
        "h = computeFileHash (cryptoDigest w) fileBytes"
        "t2 = [SelectCertificate cid, StorageDownload (file_path cert)]" by blast
    from writeLedger_cases [OF ledger_failed(5)]
    consider "t3 = []" | "t3 = [LedgerSubmit a h e]"
      | txHash where "t3 = [LedgerSubmit a h e, LedgerWait txHash]" by blast
    then show ?thesis
    proof cases
      case 1
      from ledger_failed(8) 1 assms(2) have "LedgerSubmit addr hx elig \<in> set (t1 @ t2)"
        by simp
      with early_effects [OF ledger_failed(2) ledger_failed(4)]
      have "\<not> isLedgerCall (LedgerSubmit addr hx elig)" by blast
      then show ?thesis by simp
    next
      case 2
      have "tr = t1 @ [SelectCertificate cid, StorageDownload (file_path cert)] @
                   LedgerSubmit a h e # []"
        using ledger_failed(8) f(4) 2 by simp
      from submit_position [OF ledger_failed(2) this _ assms(2)] body f show ?thesis
        by auto
    next
      case 3
      have "tr = t1 @ [SelectCertificate cid, StorageDownload (file_path cert)] @
                   LedgerSubmit a h e # [LedgerWait txHash]"
        using ledger_failed(8) f(4) 3 by simp
      from submit_position [OF ledger_failed(2) this _ assms(2)] body f show ?thesis
        by auto
    qed
  next
    case (store_failed uid t1 cid a e adminNote h t2 txHash blockNumber contractAddress t3)
    from parseBody_Inr [OF store_failed(3)] obtain body where
      body: "json req = Inr body" "certificateId body = Some cid" by blast
    from fetchAndHash_Inr [OF store_failed(4)] obtain cert fileBytes where
      f: "db cid = Some cert" "storageDownload w (file_path cert) = FileData fileBytes"
        "h = computeFileHash (cryptoDigest w) fileBytes"
        "t2 = [SelectCertificate cid, StorageDownload (file_path cert)]" by blast
    have "tr = t1 @ [SelectCertificate cid, StorageDownload (file_path cert)] @
                 LedgerSubmit a h e #
                 [LedgerWait txHash,
                  StoreUpdate cid (updateOf w uid h e adminNote txHash contractAddress)]"
      using store_failed(9) f(4) writeLedger_Inr [OF store_failed(5)] by simp
    from submit_position [OF store_failed(2) this _ assms(2)] body f show ?thesis
      by auto
  next
    case (succeeded uid t1 cid a e adminNote h t2 txHash blockNumber contractAddress t3)
    from parseBody_Inr [OF succeeded(3)] obtain body where
      body: "json req = Inr body" "certificateId body = Some cid" by blast
    from fetchAndHash_Inr [OF succeeded(4)] obtain cert fileBytes where
      f: "db cid = Some cert" "storageDownload w (file_path cert) = FileData fileBytes"
        "h = computeFileHash (cryptoDigest w) fileBytes"
        "t2 = [SelectCertificate cid, StorageDownload (file_path cert)]" by blast
    have "tr = t1 @ [SelectCertificate cid, StorageDownload (file_path cert)] @
                 LedgerSubmit a h e #
                 [LedgerWait txHash,
                  StoreUpdate cid (updateOf w uid h e adminNote txHash contractAddress)]"
      using succeeded(9) f(4) writeLedger_Inr [OF succeeded(5)] by simp
    from submit_position [OF succeeded(2) this _ assms(2)] body f show ?thesis
      by auto
  qed
  have stored: "\<forall>db2. sameButStoredHash db db2 \<longrightarrow>
            fst (serve w req db2) = resp \<and> snd (snd (serve w req db2)) = tr"
    using serve_sameButStoredHash [of db _ w req] assms(1) by simp
  have supplied: "\<forall>members. serve w (withMembers members req) db = (resp, db', tr)"
    using serve_withMembers [of w _ req db] assms(1) by simp
  from fresh stored supplied show ?thesis by (intro conjI)
qed

theorem submitted_hash_recomputed_witness:
  "LedgerSubmit sampleAddress
     ''0xdead000000000000000000000000000000000000000000000000000000000000'' True \<in> set trace0 \<and>
   computeFileHash (cryptoDigest world0) [0xde, 0xad] =
     ''0xdead000000000000000000000000000000000000000000000000000000000000'' \<and>
   snd (snd (serve world0 request0 (store0(''cert1'' \<mapsto> row0\<lparr>cert_hash := Some ''0xforged''\<rparr>)))) =
     trace0 \<and>
   snd (snd (serve world0 (withMembers [(''certHash'', ''0xforged'')] request0) store0)) = trace0"
proof -
  have sub: "LedgerSubmit sampleAddress
     ''0xdead000000000000000000000000000000000000000000000000000000000000'' True \<in> set trace0"
    by (simp add: trace0_def)
  note inst = submitted_hash_recomputed [OF serve_world0 sub]
  have "sameButStoredHash store0 (store0(''cert1'' \<mapsto> row0\<lparr>cert_hash := Some ''0xforged''\<rparr>))"
    by (simp add: sameButStoredHash_def store0_def)
  with inst have
    "snd (snd (serve world0 request0 (store0(''cert1'' \<mapsto> row0\<lparr>cert_hash := Some ''0xforged''\<rparr>)))) =
       trace0"
    by blast
  moreover from inst have
    "snd (snd (serve world0 (withMembers [(''certHash'', ''0xforged'')] request0) store0)) = trace0"
    by simp
  moreover have "computeFileHash (cryptoDigest world0) [0xde, 0xad] =
     ''0xdead000000000000000000000000000000000000000000000000000000000000''"
    by (simp add: world0_def sample_hash)
  ultimately show ?thesis using sub by blast
qed

subsection \<open>Where the message of a failure comes from\<close>










section \<open>Properties of the browser side\<close>























text \<open>
  Claim C10. \<open>hasBlockchainRecord\<close> always returns a boolean and never throws. It returns
  false when the ledger answers that the address has no record, when the query to the
  ledger fails, and when no contract address is configured; so a caller cannot tell an
  unreachable ledger from an absent record. It returns true only when the ledger was
  reached and answered true.
\<close>

theorem hasBlockchainRecord_never_throws:
  "(\<exists>found. hasBlockchainRecord br a = Inr found) \<and>
   (callHasRecord br a = Inr False \<longrightarrow> hasBlockchainRecord br a = Inr False) \<and>
   (callHasRecord br a = Inr (hasRecord s d) \<and> \<not> exists (records s d) \<longrightarrow>
      hasBlockchainRecord br a = Inr False) \<and>
   (callHasRecord br a = Inl message \<longrightarrow> hasBlockchainRecord br a = Inr False) \<and>
   (falsy (viteContractAddress br) \<longrightarrow> hasBlockchainRecord br a = Inr False) \<and>
   (hasBlockchainRecord br a = Inr True \<longleftrightarrow>
      \<not> falsy (viteContractAddress br) \<and> callHasRecord br a = Inr True)"
  by (auto simp: hasBlockchainRecord_def getContract_def hasRecord_def Let_def
        split: sum.splits if_splits)

theorem hasBlockchainRecord_never_throws_witness:
  "hasBlockchainRecord browser0 sampleAddress = Inr True \<and>
   hasBlockchainRecord browser0 otherAddress = Inr False \<and>
   hasBlockchainRecord browserOffline sampleAddress = Inr False"
proof -
  have diff: "otherAddress \<noteq> sampleAddress"
    by (simp add: otherAddress_def sampleAddress_def)
  have "\<not> falsy (viteContractAddress browser0) \<and> callHasRecord browser0 sampleAddress = Inr True"
    by (simp add: browser0_def falsy_def)
  with hasBlockchainRecord_never_throws [of browser0 sampleAddress]
  have "hasBlockchainRecord browser0 sampleAddress = Inr True" by blast
  moreover have "callHasRecord browser0 otherAddress = Inr False"
    using diff by (simp add: browser0_def)
  with hasBlockchainRecord_never_throws [of browser0 otherAddress]
  have "hasBlockchainRecord browser0 otherAddress = Inr False" by blast
  moreover have "callHasRecord browserOffline sampleAddress = Inl ''network error''"
    by (simp add: browserOffline_def)
  with hasBlockchainRecord_never_throws [of browserOffline sampleAddress _ _ "''network error''"]
  have "hasBlockchainRecord browserOffline sampleAddress = Inr False" by blast
  ultimately show ?thesis by blast
qed

end
